theory Spec2Isabelle
  imports Main
begin

section \<open>The S3 upload engine of ccx-messaging\<close>

text \<open>
  A shallow embedding of \<^verbatim>\<open>src/ccx_messaging/engines/s3_upload_engine.py\<close>.
  Strings are \<^typ>\<open>string\<close>, the broker and the group dictionary of a match are
  maps from keys to string values, exceptions are values of the type \<open>error\<close>, and the
  calls to the collaborators (the watchers and the uploader) are recorded in a trace.
\<close>

subsection \<open>Character classes of \<^verbatim>\<open>S3_ARCHIVE_PATTERN\<close>\<close>

text \<open>A range \<^verbatim>\<open>lo-hi\<close> of a character class: the code points from \<open>lo\<close> to \<open>hi\<close>.\<close>

definition in_range :: "char \<Rightarrow> char \<Rightarrow> char \<Rightarrow> bool" where
  "in_range lo hi c \<longleftrightarrow> (of_char lo :: nat) \<le> of_char c \<and> (of_char c :: nat) \<le> of_char hi"

text \<open>\<^verbatim>\<open>[0-9]\<close>\<close>

definition digit :: "char \<Rightarrow> bool" where
  "digit c \<longleftrightarrow> in_range (CHR ''0'') (CHR ''9'') c"

text \<open>\<^verbatim>\<open>[0-9,a-z,-]\<close>: the range 0-9, a comma, the range a-z, a comma, a hyphen.\<close>

definition cluster_id_char :: "char \<Rightarrow> bool" where
  "cluster_id_char c \<longleftrightarrow>
     in_range (CHR ''0'') (CHR ''9'') c \<or> c = CHR '','' \<or>
     in_range (CHR ''a'') (CHR ''z'') c \<or> c = CHR '','' \<or> c = CHR ''-''"

text \<open>\<^verbatim>\<open>[a-z,A-Z,0-9]\<close>: the range a-z, a comma, the range A-Z, a comma, the range 0-9.\<close>

definition id_char :: "char \<Rightarrow> bool" where
  "id_char c \<longleftrightarrow>
     in_range (CHR ''a'') (CHR ''z'') c \<or> c = CHR '','' \<or>
     in_range (CHR ''A'') (CHR ''Z'') c \<or> c = CHR '','' \<or>
     in_range (CHR ''0'') (CHR ''9'') c"

subsection \<open>Matching a path: \<^verbatim>\<open>S3_ARCHIVE_PATTERN.match\<close>\<close>

text \<open>
  \<^verbatim>\<open>(?P<name>[class]{n})\<close>: exactly \<open>n\<close> characters of the class; the group and the
  rest of the input, or no match.
\<close>

definition exactly :: "nat \<Rightarrow> (char \<Rightarrow> bool) \<Rightarrow> string \<Rightarrow> (string \<times> string) option" where
  "exactly n cls s =
     (if n \<le> length s \<and> list_all cls (take n s) then Some (take n s, drop n s) else None)"

text \<open>A literal character of the pattern: the rest of the input, or no match.\<close>

fun literal :: "char \<Rightarrow> string \<Rightarrow> string option" where
  "literal c [] = None"
| "literal c (x # xs) = (if x = c then Some xs else None)"

text \<open>
  The pattern, anchored at the start of the path (\<^verbatim>\<open>match\<close>, not \<^verbatim>\<open>search\<close>) and
  free at its end. \<^verbatim>\<open>[0-9]+\<close> is greedy and the character after it must be a slash,
  which is no digit, so the only candidate for \<open>org_id\<close> is the longest run of digits;
  the last group \<^verbatim>\<open>[a-z,A-Z,0-9]*\<close> is greedy with nothing after it, so it is the
  longest run of its class. The result is \<^verbatim>\<open>groupdict()\<close> as an association list in the
  order of the groups.
\<close>

definition archive_groups :: "string \<Rightarrow> (string \<times> string) list option" where
  "archive_groups s3_path =
     (let org_id = takeWhile digit s3_path in
      if org_id = [] then None else
      case literal (CHR ''/'') (dropWhile digit s3_path) of None \<Rightarrow> None | Some r1 \<Rightarrow>
      case exactly 36 cluster_id_char r1 of None \<Rightarrow> None | Some (cluster_id, r2) \<Rightarrow>
      case literal (CHR ''/'') r2 of None \<Rightarrow> None | Some r3 \<Rightarrow>
      case exactly 4 digit r3 of None \<Rightarrow> None | Some (year, r4) \<Rightarrow>
      case exactly 2 digit r4 of None \<Rightarrow> None | Some (month, r5) \<Rightarrow>
      case exactly 2 digit r5 of None \<Rightarrow> None | Some (day, r6) \<Rightarrow>
      case exactly 6 digit r6 of None \<Rightarrow> None | Some (time, r7) \<Rightarrow>
      case literal (CHR ''-'') r7 of None \<Rightarrow> None | Some r8 \<Rightarrow>
      (let ident = takeWhile id_char r8;
           timestamp = year @ month @ day @ time;
           archive = timestamp @ ''-'' @ ident
       in Some [(''org_id'', org_id), (''cluster_id'', cluster_id), (''archive'', archive),
                (''timestamp'', timestamp), (''year'', year), (''month'', month),
                (''day'', day), (''time'', time), (''id'', ident)]))"

text \<open>The match object, or \<open>None\<close>; \<^verbatim>\<open>match_.groupdict()\<close> is the map of the groups.\<close>

definition archive_match :: "string \<Rightarrow> (string \<rightharpoonup> string) option" where
  "archive_match s3_path = map_option map_of (archive_groups s3_path)"

subsection \<open>\<^verbatim>\<open>collections.ChainMap\<close>\<close>

text \<open>A lookup searches the maps in the order they were given; the first hit wins.\<close>

fun ChainMap :: "('k \<rightharpoonup> 'v) list \<Rightarrow> 'k \<rightharpoonup> 'v" where
  "ChainMap [] k = None"
| "ChainMap (m # ms) k = (case m k of Some v \<Rightarrow> Some v | None \<Rightarrow> ChainMap ms k)"

text \<open>Line 114 of \<^verbatim>\<open>process\<close>: \<^verbatim>\<open>components = ChainMap(broker, match_.groupdict())\<close>.\<close>

definition components_of :: "(string \<rightharpoonup> string) \<Rightarrow> (string \<rightharpoonup> string) \<Rightarrow> string \<rightharpoonup> string" where
  "components_of broker groups = ChainMap [broker, groups]"

subsection \<open>The template of the target path\<close>

text \<open>
  Modelled from the spec: the class \<^verbatim>\<open>SlicedTemplate\<close> of
  \<^verbatim>\<open>ccx_messaging/utils/sliced_template.py\<close> and its \<^verbatim>\<open>safe_substitute\<close>, which are
  not among the sources. The spec (sections 3 and 4.2): a template is a string containing
  \<^verbatim>\<open>$name\<close> or \<^verbatim>\<open>${name}\<close> placeholders, optionally followed by a slice suffix
  \<^verbatim>\<open>[start:stop]\<close> that selects a substring of the resolved value; \<^verbatim>\<open>[a:b]\<close> selects
  the characters at offset a up to (excluding) offset b, an omitted a is 0, an omitted b is
  the length of the value, negative indices count from the end; a placeholder whose name
  is not found is left as literal text. A name is taken to be a letter or an underscore
  followed by letters, digits and underscores, as long as possible. The spec names no
  escape sequence, so a dollar sign that starts no placeholder is literal text.
\<close>

definition ident_start :: "char \<Rightarrow> bool" where
  "ident_start c \<longleftrightarrow>
     c = CHR ''_'' \<or> in_range (CHR ''a'') (CHR ''z'') c \<or> in_range (CHR ''A'') (CHR ''Z'') c"

definition ident_char :: "char \<Rightarrow> bool" where
  "ident_char c \<longleftrightarrow> ident_start c \<or> in_range (CHR ''0'') (CHR ''9'') c"

text \<open>The name at the start of a string, if there is one.\<close>

fun parse_ident :: "string \<Rightarrow> string option" where
  "parse_ident [] = None"
| "parse_ident (c # cs) = (if ident_start c then Some (c # takeWhile ident_char cs) else None)"

text \<open>
  What follows the dollar sign: \<^verbatim>\<open>name\<close> or \<^verbatim>\<open>{name}\<close>. The result is the name and the
  number of characters read.
\<close>

fun parse_placeholder :: "string \<Rightarrow> (string \<times> nat) option" where
  "parse_placeholder [] = None"
| "parse_placeholder (c # cs) =
     (if c = CHR ''{'' then
        (case parse_ident cs of
           None \<Rightarrow> None
         | Some name \<Rightarrow>
             (case drop (length name) cs of
                [] \<Rightarrow> None
              | d # _ \<Rightarrow> if d = CHR ''}'' then Some (name, length name + 2) else None))
      else map_option (\<lambda>name. (name, length name)) (parse_ident (c # cs)))"

text \<open>The value of a string of decimal digits.\<close>

definition digits_value :: "string \<Rightarrow> int" where
  "digits_value ds = foldl (\<lambda>a c. 10 * a + (int (of_char c) - 48)) 0 ds"

text \<open>
  A bound of a slice: nothing (the bound is omitted), digits, or a minus sign and digits.
  The result is the bound and the number of characters read.
\<close>

definition parse_bound :: "string \<Rightarrow> int option \<times> nat" where
  "parse_bound cs =
     (case cs of
        [] \<Rightarrow> (None, 0)
      | c # r \<Rightarrow>
          if c = CHR ''-'' then
            (let ds = takeWhile digit r in
             if ds = [] then (None, 0) else (Some (- digits_value ds), length ds + 1))
          else
            (let ds = takeWhile digit cs in
             if ds = [] then (None, 0) else (Some (digits_value ds), length ds)))"

text \<open>The slice suffix \<^verbatim>\<open>[start:stop]\<close> at the start of a string, if there is one.\<close>

definition parse_slice :: "string \<Rightarrow> ((int option \<times> int option) \<times> nat) option" where
  "parse_slice cs =
     (case cs of
        [] \<Rightarrow> None
      | c # r \<Rightarrow>
          if c \<noteq> CHR ''['' then None else
          (case parse_bound r of (a, n) \<Rightarrow>
             (case drop n r of
                [] \<Rightarrow> None
              | d # r' \<Rightarrow>
                  if d \<noteq> CHR '':'' then None else
                  (case parse_bound r' of (b, m) \<Rightarrow>
                     (case drop m r' of
                        [] \<Rightarrow> None
                      | e # _ \<Rightarrow>
                          if e = CHR '']'' then Some ((a, b), n + m + 3) else None)))))"

text \<open>
  A piece of a template: a character of literal text, or a placeholder with its text in
  the template, its name and its slice.
\<close>

datatype segment =
  Literal char
| Placeholder string string "(int option \<times> int option) option"

text \<open>The placeholder after a dollar sign: name, slice and the number of characters read.\<close>

definition placeholder_at :: "string \<Rightarrow> (string \<times> (int option \<times> int option) option \<times> nat) option" where
  "placeholder_at cs =
     (case parse_placeholder cs of
        None \<Rightarrow> None
      | Some (name, n) \<Rightarrow>
          (case parse_slice (drop n cs) of
             None \<Rightarrow> Some (name, None, n)
           | Some (sl, m) \<Rightarrow> Some (name, Some sl, n + m)))"

text \<open>The scan of a template from left to right.\<close>

fun segments :: "string \<Rightarrow> segment list" where
  "segments [] = []"
| "segments (c # cs) =
     (if c = CHR ''$'' then
        (case placeholder_at cs of
           None \<Rightarrow> Literal c # segments cs
         | Some (name, sl, n) \<Rightarrow> Placeholder (c # take n cs) name sl # segments (drop n cs))
      else Literal c # segments cs)"

text \<open>An index of a slice on a sequence of length \<open>n\<close>: counted from the end when negative, and clipped.\<close>

definition slice_index :: "nat \<Rightarrow> int \<Rightarrow> nat" where
  "slice_index n i = (if i < 0 then nat (int n + i) else min n (nat i))"

definition slice_value :: "(int option \<times> int option) option \<Rightarrow> string \<Rightarrow> string" where
  "slice_value sl v =
     (case sl of
        None \<Rightarrow> v
      | Some (a, b) \<Rightarrow>
          (let lo = (case a of None \<Rightarrow> 0 | Some i \<Rightarrow> slice_index (length v) i);
               hi = (case b of None \<Rightarrow> length v | Some j \<Rightarrow> slice_index (length v) j)
           in take (hi - lo) (drop lo v)))"

text \<open>The text of a piece in the template, and the text that replaces it.\<close>

fun segment_text :: "segment \<Rightarrow> string" where
  "segment_text (Literal c) = [c]"
| "segment_text (Placeholder raw name sl) = raw"

fun convert :: "(string \<rightharpoonup> string) \<Rightarrow> segment \<Rightarrow> string" where
  "convert mapping (Literal c) = [c]"
| "convert mapping (Placeholder raw name sl) =
     (case mapping name of None \<Rightarrow> raw | Some v \<Rightarrow> slice_value sl v)"

definition safe_substitute :: "string \<Rightarrow> (string \<rightharpoonup> string) \<Rightarrow> string" where
  "safe_substitute template mapping = concat (map (convert mapping) (segments template))"

text \<open>The names of the placeholders of a template.\<close>

fun placeholder_names :: "segment list \<Rightarrow> string list" where
  "placeholder_names [] = []"
| "placeholder_names (Literal c # ss) = placeholder_names ss"
| "placeholder_names (Placeholder raw name sl # ss) = name # placeholder_names ss"

subsection \<open>The report and \<^verbatim>\<open>json.dumps\<close>\<close>

text \<open>
  The values the report is made of: strings, \<^verbatim>\<open>None\<close> (what \<^verbatim>\<open>components.get\<close> gives for
  a missing key) and dictionaries, with their keys in the order of insertion.
\<close>

datatype json =
  JString string
| JNull
| JObject "(string \<times> json) list"

definition hex_digit :: "nat \<Rightarrow> char" where
  "hex_digit n = ''0123456789abcdef'' ! (n mod 16)"

text \<open>
  A character inside a JSON string, with \<^verbatim>\<open>ensure_ascii\<close> (the default): the quote and
  the backslash are escaped, the printable ASCII characters stand for themselves, the
  control characters have their short forms or \<^verbatim>\<open>\u00XX\<close>, as every other character.
\<close>

definition escape_char :: "char \<Rightarrow> string" where
  "escape_char c =
     (if c = CHR 0x22 then [CHR 0x5C, CHR 0x22]
      else if c = CHR 0x5C then [CHR 0x5C, CHR 0x5C]
      else if c = CHR 0x0A then [CHR 0x5C, CHR ''n'']
      else if c = CHR 0x0D then [CHR 0x5C, CHR ''r'']
      else if c = CHR 0x09 then [CHR 0x5C, CHR ''t'']
      else if c = CHR 0x08 then [CHR 0x5C, CHR ''b'']
      else if c = CHR 0x0C then [CHR 0x5C, CHR ''f'']
      else if in_range (CHR '' '') (CHR ''~'') c then [c]
      else [CHR 0x5C, CHR ''u'', CHR ''0'', CHR ''0'',
            hex_digit (of_char c div 16), hex_digit (of_char c mod 16)])"

definition dumps_string :: "string \<Rightarrow> string" where
  "dumps_string s = [CHR 0x22] @ concat (map escape_char s) @ [CHR 0x22]"

text \<open>The default separators are \<^verbatim>\<open>", "\<close> between the items and \<^verbatim>\<open>": "\<close> after a key.\<close>

fun json_dumps :: "json \<Rightarrow> string"
  and dumps_items :: "(string \<times> json) list \<Rightarrow> string" where
  "json_dumps (JString s) = dumps_string s"
| "json_dumps JNull = ''null''"
| "json_dumps (JObject kvs) = ''{'' @ dumps_items kvs @ ''}''"
| "dumps_items [] = []"
| "dumps_items ((k, v) # kvs) =
     dumps_string k @ '': '' @ json_dumps v @ (if kvs = [] then [] else '', '' @ dumps_items kvs)"

definition json_of_get :: "string option \<Rightarrow> json" where
  "json_of_get r = (case r of None \<Rightarrow> JNull | Some v \<Rightarrow> JString v)"

text \<open>\<^verbatim>\<open>create_metadata(components)\<close>\<close>

definition create_metadata :: "(string \<rightharpoonup> string) \<Rightarrow> json" where
  "create_metadata components =
     JObject [(''cluster_id'', json_of_get (components ''cluster_id'')),
              (''external_organization'', json_of_get (components ''org_id''))]"

subsection \<open>The engine\<close>

datatype error =
  KeyError string
| CCXMessagingError string
| UploadError string

text \<open>
  What the engine does to its collaborators, in the order it does it:
  \<^verbatim>\<open>self.fire("pre_extract", broker, local_path)\<close>, \<^verbatim>\<open>w.watch_broker(broker)\<close> for a
  watcher \<open>w\<close>, \<^verbatim>\<open>self.fire("on_engine_failure", broker, exception)\<close>,
  \<^verbatim>\<open>self.uploader.upload_file(local_path, self.dest_bucket, target_path)\<close> and
  \<^verbatim>\<open>self.fire("on_engine_success", broker, report)\<close>. The collaborators are outside
  the engine: a call is an entry of the trace, and the broker changes only where
  \<^verbatim>\<open>process\<close> itself changes it.
\<close>

datatype event =
  Pre_extract string
| Watch_broker string
| On_engine_failure error
| Upload_file string "string option" string
| On_engine_success json

text \<open>
  The fields of \<^verbatim>\<open>S3UploadEngine\<close> that \<^verbatim>\<open>process\<close> reads. The uploader is a
  collaborator: \<open>upload_file\<close> gives, for the arguments of a call, the message of the
  error the call raises, or \<open>None\<close> when it returns. The watchers are named.
\<close>

record engine =
  dest_bucket :: "string option"
  archives_path_prefix :: "string option"
  archive_name_template :: string
  watchers :: "string list"
  upload_file :: "string \<Rightarrow> string option \<Rightarrow> string \<Rightarrow> string option"

text \<open>The default of the argument \<^verbatim>\<open>archive_name_pattern\<close> of \<^verbatim>\<open>__init__\<close>.\<close>

definition default_archive_name_pattern :: string where
  "default_archive_name_pattern = ''$cluster_id[:2]/$cluster_id/$year$month/$day/$time.tar.gz''"

text \<open>
  \<^verbatim>\<open>__init__\<close>, with the arguments that \<^verbatim>\<open>process\<close> depends on; a new engine has no
  watchers.
\<close>

definition S3UploadEngine ::
  "string option \<Rightarrow> string option \<Rightarrow> string \<Rightarrow>
   (string \<Rightarrow> string option \<Rightarrow> string \<Rightarrow> string option) \<Rightarrow> engine" where
  "S3UploadEngine bucket prefix pattern uploader =
     \<lparr>dest_bucket = bucket, archives_path_prefix = prefix, archive_name_template = pattern,
      watchers = [], upload_file = uploader\<rparr>"

text \<open>\<^verbatim>\<open>compute_target_path\<close>: the prefix counts when it is neither \<^verbatim>\<open>None\<close> nor empty.\<close>

definition compute_target_path :: "engine \<Rightarrow> (string \<rightharpoonup> string) \<Rightarrow> string" where
  "compute_target_path eng components =
     (let path = safe_substitute (archive_name_template eng) components in
      case archives_path_prefix eng of
        None \<Rightarrow> path
      | Some prefix \<Rightarrow> if prefix \<noteq> [] then prefix @ ''/'' @ path else path)"

text \<open>\<^verbatim>\<open>del broker[key]\<close>\<close>

definition del_item :: "(string \<rightharpoonup> string) \<Rightarrow> string \<Rightarrow> error + (string \<rightharpoonup> string)" where
  "del_item broker key = (if broker key = None then Inl (KeyError key) else Inr (broker(key := None)))"

text \<open>
  The outcome of a call of \<^verbatim>\<open>process\<close>: the exception raised or the string returned,
  the broker after the call, and the calls to the collaborators.
\<close>

record outcome =
  result :: "error + string"
  broker_after :: "string \<rightharpoonup> string"
  trace :: "event list"

definition process :: "engine \<Rightarrow> (string \<rightharpoonup> string) \<Rightarrow> string \<Rightarrow> outcome" where
  "process eng broker local_path =
     (let t0 = [Pre_extract local_path] in
      case broker ''s3_path'' of
        None \<Rightarrow> \<lparr>result = Inl (KeyError ''s3_path''), broker_after = broker, trace = t0\<rparr>
      | Some s3_path \<Rightarrow>
     (let t1 = t0 @ map Watch_broker (watchers eng) in
      case archive_match s3_path of
        None \<Rightarrow>
          (let exception = CCXMessagingError ''Archive pattern name incorrect'' in
           \<lparr>result = Inl exception, broker_after = broker,
            trace = t1 @ [On_engine_failure exception]\<rparr>)
      | Some groupdict \<Rightarrow>
     (let components = components_of broker groupdict;
          target_path = compute_target_path eng components;
          t2 = t1 @ [Upload_file local_path (dest_bucket eng) target_path] in
      case upload_file eng local_path (dest_bucket eng) target_path of
        Some msg \<Rightarrow> \<lparr>result = Inl (UploadError msg), broker_after = broker, trace = t2\<rparr>
      | None \<Rightarrow>
     (let metadata = create_metadata components;
          report = JObject [(''path'', JString target_path),
                            (''original_path'', JString s3_path),
                            (''metadata'', metadata)];
          t3 = t2 @ [On_engine_success report] in
      case del_item broker ''cluster_id'' of
        Inl e \<Rightarrow> \<lparr>result = Inl e, broker_after = broker, trace = t3\<rparr>
      | Inr broker1 \<Rightarrow>
     (case del_item broker1 ''s3_path'' of
        Inl e \<Rightarrow> \<lparr>result = Inl e, broker_after = broker1, trace = t3\<rparr>
      | Inr broker2 \<Rightarrow>
          \<lparr>result = Inr (json_dumps report), broker_after = broker2, trace = t3\<rparr>)))))"

subsection \<open>Reading a trace\<close>

fun is_pre_extract :: "event \<Rightarrow> bool" where
  "is_pre_extract (Pre_extract l) = True"
| "is_pre_extract _ = False"

fun is_upload :: "event \<Rightarrow> bool" where
  "is_upload (Upload_file l b t) = True"
| "is_upload _ = False"

fun is_on_engine_failure :: "event \<Rightarrow> bool" where
  "is_on_engine_failure (On_engine_failure e) = True"
| "is_on_engine_failure _ = False"

fun is_on_engine_success :: "event \<Rightarrow> bool" where
  "is_on_engine_success (On_engine_success r) = True"
| "is_on_engine_success _ = False"

text \<open>The two notifications that close a call.\<close>

definition is_final :: "event \<Rightarrow> bool" where
  "is_final e \<longleftrightarrow> is_on_engine_success e \<or> is_on_engine_failure e"

subsection \<open>Collaborators and values for the examples\<close>

text \<open>An uploader whose calls all return, and one whose calls all raise the same error.\<close>

definition working_uploader :: "string \<Rightarrow> string option \<Rightarrow> string \<Rightarrow> string option" where
  "working_uploader local_path bucket target_path = None"

definition failing_uploader :: "string \<Rightarrow> string \<Rightarrow> string option \<Rightarrow> string \<Rightarrow> string option" where
  "failing_uploader msg local_path bucket target_path = Some msg"

text \<open>
  The character set that the spec gives for \<open>cluster_id\<close>, in the spec's words: digits,
  lowercase letters and hyphens.
\<close>

definition spec_cluster_id_char :: "char \<Rightarrow> bool" where
  "spec_cluster_id_char c \<longleftrightarrow>
     in_range (CHR ''0'') (CHR ''9'') c \<or> in_range (CHR ''a'') (CHR ''z'') c \<or> c = CHR ''-''"

subsection \<open>Writing a placeholder\<close>

text \<open>
  The words of the spec for what a template is made of, apart from the scanner above:
  a name; a bound of a slice as it is written (nothing, digits, or a minus sign and
  digits); the value of a written bound.
\<close>

definition is_name :: "string \<Rightarrow> bool" where
  "is_name name \<longleftrightarrow> name \<noteq> [] \<and> ident_start (hd name) \<and> list_all ident_char (tl name)"

definition is_bound_text :: "string \<Rightarrow> bool" where
  "is_bound_text a \<longleftrightarrow>
     list_all digit a \<or> (a \<noteq> [] \<and> hd a = CHR ''-'' \<and> tl a \<noteq> [] \<and> list_all digit (tl a))"

definition bound_value :: "string \<Rightarrow> int option" where
  "bound_value a =
     (if a = [] then None
      else if hd a = CHR ''-'' then Some (- digits_value (tl a))
      else Some (digits_value a))"

section \<open>Properties\<close>

subsection \<open>Evaluations shared by the examples\<close>

lemma example_groups:
  "archive_groups ''123/abcdefab-cdef-abcd-efab-cdefabcdefab/20240101120000-xyz123'' =
     Some [(''org_id'', ''123''), (''cluster_id'', ''abcdefab-cdef-abcd-efab-cdefabcdefab''),
           (''archive'', ''20240101120000-xyz123''), (''timestamp'', ''20240101120000''),
           (''year'', ''2024''), (''month'', ''01''), (''day'', ''01''), (''time'', ''120000''),
           (''id'', ''xyz123'')]"
  by code_simp

lemma example_match:
  "archive_match ''123/abcdefab-cdef-abcd-efab-cdefabcdefab/20240101120000-xyz123'' =
     Some (map_of [(''org_id'', ''123''), (''cluster_id'', ''abcdefab-cdef-abcd-efab-cdefabcdefab''),
           (''archive'', ''20240101120000-xyz123''), (''timestamp'', ''20240101120000''),
           (''year'', ''2024''), (''month'', ''01''), (''day'', ''01''), (''time'', ''120000''),
           (''id'', ''xyz123'')])"
  by (simp only: archive_match_def example_groups option.map)

lemma spec_path_no_match:
  "archive_match ''123/abcdefabcd-efab-cdef-abcd-efabcdefabcd/20240101120000-xyz123'' = None"
  by code_simp

lemma invalid_path_no_match: "archive_match ''not-a-valid-path'' = None"
  by code_simp

lemma default_segments:
  "segments default_archive_name_pattern =
     [Placeholder ''$cluster_id[:2]'' ''cluster_id'' (Some (None, Some 2)), Literal (CHR ''/''),
      Placeholder ''$cluster_id'' ''cluster_id'' None, Literal (CHR ''/''),
      Placeholder ''$year'' ''year'' None, Placeholder ''$month'' ''month'' None,
      Literal (CHR ''/''), Placeholder ''$day'' ''day'' None, Literal (CHR ''/''),
      Placeholder ''$time'' ''time'' None, Literal (CHR ''.''), Literal (CHR ''t''),
      Literal (CHR ''a''), Literal (CHR ''r''), Literal (CHR ''.''), Literal (CHR ''g''),
      Literal (CHR ''z'')]"
  by code_simp

lemma default_target_path:
  assumes "components ''cluster_id'' = Some ''abcdefab-cdef-abcd-efab-cdefabcdefab''"
    and "components ''year'' = Some ''2024''" and "components ''month'' = Some ''01''"
    and "components ''day'' = Some ''01''" and "components ''time'' = Some ''120000''"
  shows "safe_substitute default_archive_name_pattern components =
           ''ab/abcdefab-cdef-abcd-efab-cdefabcdefab/202401/01/120000.tar.gz''"
  using assms by (simp add: safe_substitute_def default_segments slice_value_def slice_index_def)

lemma filter_watch_broker [simp]:
  "filter is_upload (map Watch_broker ws) = []"
  "filter is_pre_extract (map Watch_broker ws) = []"
  "filter is_on_engine_failure (map Watch_broker ws) = []"
  "filter is_on_engine_success (map Watch_broker ws) = []"
  "filter is_final (map Watch_broker ws) = []"
  by (induction ws) (simp_all add: is_final_def)

subsection \<open>The layered lookup\<close>

text \<open>
  Claim C1, as the code has it. \<^verbatim>\<open>ChainMap(broker, match_.groupdict())\<close> searches the
  broker first: a key of the broker is looked up in the broker, also when the match has a
  group of that name, and only a key that the broker lacks is looked up in the groups.
\<close>

theorem components_of_broker_first:
  "(k \<in> dom broker \<longrightarrow> components_of broker groups k = broker k) \<and>
   (k \<notin> dom broker \<longrightarrow> components_of broker groups k = groups k)"
  by (auto simp: components_of_def split: option.splits)

theorem components_of_broker_first_witness:
  "''year'' \<in> dom [''year'' \<mapsto> ''1999''] \<and>
   components_of [''year'' \<mapsto> ''1999''] [''year'' \<mapsto> ''2024'', ''day'' \<mapsto> ''01''] ''year''
     = Some ''1999'' \<and>
   ''day'' \<notin> dom [''year'' \<mapsto> ''1999''] \<and>
   components_of [''year'' \<mapsto> ''1999''] [''year'' \<mapsto> ''2024'', ''day'' \<mapsto> ''01''] ''day''
     = Some ''01''"
  using components_of_broker_first
      [of "''year''" "[''year'' \<mapsto> ''1999'']" "[''year'' \<mapsto> ''2024'', ''day'' \<mapsto> ''01'']"]
    components_of_broker_first
      [of "''day''" "[''year'' \<mapsto> ''1999'']" "[''year'' \<mapsto> ''2024'', ''day'' \<mapsto> ''01'']"]
  by simp

text \<open>
  Claim C1 as the spec states it fails: the key \<open>cluster_id\<close> is in the groups of the
  match and in the broker, and the lookup gives the value of the broker.
\<close>

theorem components_precedence_counterexample:
  "the (archive_match ''123/abcdefab-cdef-abcd-efab-cdefabcdefab/20240101120000-xyz123'')
     ''cluster_id'' = Some ''abcdefab-cdef-abcd-efab-cdefabcdefab'' \<and>
   [''cluster_id'' \<mapsto> ''00000000-0000-0000-0000-000000000000''] ''cluster_id''
     = Some ''00000000-0000-0000-0000-000000000000'' \<and>
   components_of [''cluster_id'' \<mapsto> ''00000000-0000-0000-0000-000000000000'']
     (the (archive_match ''123/abcdefab-cdef-abcd-efab-cdefabcdefab/20240101120000-xyz123''))
     ''cluster_id'' = Some ''00000000-0000-0000-0000-000000000000''"
  by (simp add: example_match components_of_def)

subsection \<open>A path that does not match\<close>

text \<open>
  Claim C3. When the \<open>s3_path\<close> of the broker does not match the pattern, \<open>process\<close>
  raises the pattern error, the trace holds one \<open>on_engine_failure\<close> with that error and
  no call of the uploader, and the broker is the one that was given.
\<close>

theorem process_pattern_mismatch:
  assumes "broker ''s3_path'' = Some s3_path" and "archive_match s3_path = None"
  shows "result (process eng broker local_path)
           = Inl (CCXMessagingError ''Archive pattern name incorrect'') \<and>
         filter is_on_engine_failure (trace (process eng broker local_path)) =
           [On_engine_failure (CCXMessagingError ''Archive pattern name incorrect'')] \<and>
         filter is_upload (trace (process eng broker local_path)) = [] \<and>
         broker_after (process eng broker local_path) = broker"
  using assms by (simp add: process_def Let_def)

theorem process_pattern_mismatch_witness:
  "[''s3_path'' \<mapsto> ''not-a-valid-path'', ''cluster_id'' \<mapsto> ''c''] ''s3_path''
     = Some ''not-a-valid-path'' \<and>
   archive_match ''not-a-valid-path'' = None \<and>
   result (process (S3UploadEngine None None default_archive_name_pattern working_uploader)
       [''s3_path'' \<mapsto> ''not-a-valid-path'', ''cluster_id'' \<mapsto> ''c''] ''/tmp/archive'')
     = Inl (CCXMessagingError ''Archive pattern name incorrect'') \<and>
   filter is_upload
     (trace (process (S3UploadEngine None None default_archive_name_pattern working_uploader)
       [''s3_path'' \<mapsto> ''not-a-valid-path'', ''cluster_id'' \<mapsto> ''c''] ''/tmp/archive'')) = [] \<and>
   broker_after (process (S3UploadEngine None None default_archive_name_pattern working_uploader)
       [''s3_path'' \<mapsto> ''not-a-valid-path'', ''cluster_id'' \<mapsto> ''c''] ''/tmp/archive'')
     ''cluster_id'' = Some ''c''"
proof -
  have h1: "[''s3_path'' \<mapsto> ''not-a-valid-path'', ''cluster_id'' \<mapsto> ''c''] ''s3_path''
              = Some ''not-a-valid-path''"
    by simp
  show ?thesis
    using h1 invalid_path_no_match
      process_pattern_mismatch
        [of "[''s3_path'' \<mapsto> ''not-a-valid-path'', ''cluster_id'' \<mapsto> ''c'']"
            "''not-a-valid-path''"
            "S3UploadEngine None None default_archive_name_pattern working_uploader"
            "''/tmp/archive''"]
    by simp
qed

subsection \<open>Runs of \<open>process\<close> on concrete brokers\<close>

lemma example_run:
  "result (process (S3UploadEngine None None default_archive_name_pattern working_uploader)
       [''s3_path'' \<mapsto> ''123/abcdefab-cdef-abcd-efab-cdefabcdefab/20240101120000-xyz123'',
        ''cluster_id'' \<mapsto> ''abcdefab-cdef-abcd-efab-cdefabcdefab'', ''org_id'' \<mapsto> ''999'']
       ''/tmp/archive'')
     = Inr (json_dumps
             (JObject [(''path'', JString ''ab/abcdefab-cdef-abcd-efab-cdefabcdefab/202401/01/120000.tar.gz''),
                       (''original_path'', JString ''123/abcdefab-cdef-abcd-efab-cdefabcdefab/20240101120000-xyz123''),
                       (''metadata'',
                        JObject [(''cluster_id'', JString ''abcdefab-cdef-abcd-efab-cdefabcdefab''),
                                 (''external_organization'', JString ''999'')])]))"
  by code_simp

lemma example_run_plain:
  "result (process (S3UploadEngine None None default_archive_name_pattern working_uploader)
       [''s3_path'' \<mapsto> ''123/abcdefab-cdef-abcd-efab-cdefabcdefab/20240101120000-xyz123'',
        ''cluster_id'' \<mapsto> ''abcdefab-cdef-abcd-efab-cdefabcdefab'']
       ''/tmp/archive'')
     = Inr (json_dumps
             (JObject [(''path'', JString ''ab/abcdefab-cdef-abcd-efab-cdefabcdefab/202401/01/120000.tar.gz''),
                       (''original_path'', JString ''123/abcdefab-cdef-abcd-efab-cdefabcdefab/20240101120000-xyz123''),
                       (''metadata'',
                        JObject [(''cluster_id'', JString ''abcdefab-cdef-abcd-efab-cdefabcdefab''),
                                 (''external_organization'', JString ''123'')])]))"
  by code_simp

lemma example_upload_error:
  "result (process (S3UploadEngine (Some ''bucket'') None default_archive_name_pattern
                      (failing_uploader ''connection refused''))
       [''s3_path'' \<mapsto> ''123/abcdefab-cdef-abcd-efab-cdefabcdefab/20240101120000-xyz123'',
        ''cluster_id'' \<mapsto> ''abcdefab-cdef-abcd-efab-cdefabcdefab'']
       ''/tmp/archive'')
     = Inl (UploadError ''connection refused'')"
  by code_simp

lemma archive_match_groups:
  assumes "archive_match s3_path = Some groupdict"
  shows "\<exists>org cluster. groupdict ''org_id'' = Some org \<and> groupdict ''cluster_id'' = Some cluster \<and>
           length cluster = 36 \<and> list_all cluster_id_char cluster"
  using assms
  by (auto simp: archive_match_def archive_groups_def exactly_def Let_def
           split: option.splits if_splits)

subsection \<open>The cleanup of the broker\<close>

text \<open>
  Claim C4. When \<open>process\<close> returns (its result is a report and no exception), the
  broker after the call has neither the key \<open>cluster_id\<close> nor the key \<open>s3_path\<close>, and
  every other key has the value it had before.
\<close>

theorem process_cleanup:
  assumes "result (process eng broker local_path) = Inr r"
  shows "broker_after (process eng broker local_path) ''cluster_id'' = None \<and>
         broker_after (process eng broker local_path) ''s3_path'' = None \<and>
         (\<forall>k. k \<noteq> ''cluster_id'' \<longrightarrow> k \<noteq> ''s3_path'' \<longrightarrow>
              broker_after (process eng broker local_path) k = broker k)"
  using assms
  by (auto simp: process_def Let_def del_item_def split: option.splits if_splits sum.splits)

theorem process_cleanup_witness:
  "result (process (S3UploadEngine None None default_archive_name_pattern working_uploader)
       [''s3_path'' \<mapsto> ''123/abcdefab-cdef-abcd-efab-cdefabcdefab/20240101120000-xyz123'',
        ''cluster_id'' \<mapsto> ''abcdefab-cdef-abcd-efab-cdefabcdefab'', ''org_id'' \<mapsto> ''999'']
       ''/tmp/archive'')
     = Inr (json_dumps
             (JObject [(''path'', JString ''ab/abcdefab-cdef-abcd-efab-cdefabcdefab/202401/01/120000.tar.gz''),
                       (''original_path'', JString ''123/abcdefab-cdef-abcd-efab-cdefabcdefab/20240101120000-xyz123''),
                       (''metadata'',
                        JObject [(''cluster_id'', JString ''abcdefab-cdef-abcd-efab-cdefabcdefab''),
                                 (''external_organization'', JString ''999'')])])) \<and>
   broker_after (process (S3UploadEngine None None default_archive_name_pattern working_uploader)
       [''s3_path'' \<mapsto> ''123/abcdefab-cdef-abcd-efab-cdefabcdefab/20240101120000-xyz123'',
        ''cluster_id'' \<mapsto> ''abcdefab-cdef-abcd-efab-cdefabcdefab'', ''org_id'' \<mapsto> ''999'']
       ''/tmp/archive'') ''cluster_id'' = None \<and>
   broker_after (process (S3UploadEngine None None default_archive_name_pattern working_uploader)
       [''s3_path'' \<mapsto> ''123/abcdefab-cdef-abcd-efab-cdefabcdefab/20240101120000-xyz123'',
        ''cluster_id'' \<mapsto> ''abcdefab-cdef-abcd-efab-cdefabcdefab'', ''org_id'' \<mapsto> ''999'']
       ''/tmp/archive'') ''s3_path'' = None \<and>
   broker_after (process (S3UploadEngine None None default_archive_name_pattern working_uploader)
       [''s3_path'' \<mapsto> ''123/abcdefab-cdef-abcd-efab-cdefabcdefab/20240101120000-xyz123'',
        ''cluster_id'' \<mapsto> ''abcdefab-cdef-abcd-efab-cdefabcdefab'', ''org_id'' \<mapsto> ''999'']
       ''/tmp/archive'') ''org_id'' = Some ''999''"
  using process_cleanup [OF example_run] example_run by simp

subsection \<open>The notifications of a call\<close>

text \<open>
  Claim C5, as the code has it. Every call fires \<open>pre_extract\<close> once, before anything
  else, and at most one of \<open>on_engine_success\<close> and \<open>on_engine_failure\<close>. Whenever
  the match fails it fires \<open>on_engine_failure\<close> and nothing else of the two; whenever
  the call of the uploader returns it fires \<open>on_engine_success\<close> and nothing else of the
  two; when the broker has no \<open>s3_path\<close> or the call of the uploader raises it fires
  neither.
\<close>

theorem process_notifications:
  "(\<exists>rest. trace (process eng broker local_path) = Pre_extract local_path # rest \<and>
           filter is_pre_extract rest = []) \<and>
   length (filter is_final (trace (process eng broker local_path))) \<le> 1 \<and>
   (broker ''s3_path'' = None \<longrightarrow>
      filter is_final (trace (process eng broker local_path)) = []) \<and>
   (broker ''s3_path'' = Some s3_path \<and> archive_match s3_path = None \<longrightarrow>
      filter is_final (trace (process eng broker local_path)) =
        [On_engine_failure (CCXMessagingError ''Archive pattern name incorrect'')]) \<and>
   (broker ''s3_path'' = Some s3_path \<and> archive_match s3_path = Some groupdict \<and>
    upload_file eng local_path (dest_bucket eng)
      (compute_target_path eng (components_of broker groupdict)) = None \<longrightarrow>
      filter is_final (trace (process eng broker local_path)) =
        [On_engine_success
           (JObject [(''path'', JString (compute_target_path eng (components_of broker groupdict))),
                     (''original_path'', JString s3_path),
                     (''metadata'', create_metadata (components_of broker groupdict))])]) \<and>
   (broker ''s3_path'' = Some s3_path \<and> archive_match s3_path = Some groupdict \<and>
    upload_file eng local_path (dest_bucket eng)
      (compute_target_path eng (components_of broker groupdict)) = Some msg \<longrightarrow>
      filter is_final (trace (process eng broker local_path)) = [])"
proof (intro conjI impI)
  show "\<exists>rest. trace (process eng broker local_path) = Pre_extract local_path # rest \<and>
           filter is_pre_extract rest = []"
    by (auto simp: process_def Let_def del_item_def split: option.splits sum.splits)
  show "length (filter is_final (trace (process eng broker local_path))) \<le> 1"
    by (auto simp: process_def Let_def del_item_def is_final_def split: option.splits sum.splits)
qed (auto simp: process_def Let_def del_item_def is_final_def split: option.splits sum.splits)

theorem process_notifications_witness:
  "filter is_final
     (trace (process (S3UploadEngine None None default_archive_name_pattern working_uploader)
        [''s3_path'' \<mapsto> ''not-a-valid-path''] ''/tmp/archive''))
     = [On_engine_failure (CCXMessagingError ''Archive pattern name incorrect'')] \<and>
   length (filter is_final
     (trace (process (S3UploadEngine None None default_archive_name_pattern working_uploader)
        [''s3_path'' \<mapsto> ''123/abcdefab-cdef-abcd-efab-cdefabcdefab/20240101120000-xyz123'']
        ''/tmp/archive''))) = 1 \<and>
   filter is_on_engine_failure
     (trace (process (S3UploadEngine None None default_archive_name_pattern working_uploader)
        [''s3_path'' \<mapsto> ''123/abcdefab-cdef-abcd-efab-cdefabcdefab/20240101120000-xyz123'']
        ''/tmp/archive'')) = [] \<and>
   filter is_final
     (trace (process (S3UploadEngine None None default_archive_name_pattern
                        (failing_uploader ''connection refused''))
        [''s3_path'' \<mapsto> ''123/abcdefab-cdef-abcd-efab-cdefabcdefab/20240101120000-xyz123'']
        ''/tmp/archive'')) = [] \<and>
   filter is_final
     (trace (process (S3UploadEngine None None default_archive_name_pattern working_uploader)
        Map.empty ''/tmp/archive'')) = []"
proof -
  let ?P = "''123/abcdefab-cdef-abcd-efab-cdefabcdefab/20240101120000-xyz123''"
  let ?W = "S3UploadEngine None None default_archive_name_pattern working_uploader"
  let ?F = "S3UploadEngine None None default_archive_name_pattern
              (failing_uploader ''connection refused'')"
  obtain g where g: "archive_match ?P = Some g"
    using example_match by simp
  have w: "upload_file ?W l b t = None" for l b t
    by (simp add: S3UploadEngine_def working_uploader_def)
  have f: "upload_file ?F l b t = Some ''connection refused''" for l b t
    by (simp add: S3UploadEngine_def failing_uploader_def)
  have b: "[''s3_path'' \<mapsto> ?P] ''s3_path'' = Some ?P"
    by simp
  have n: "[''s3_path'' \<mapsto> ''not-a-valid-path''] ''s3_path'' = Some ''not-a-valid-path''"
    by simp
  have c1: "filter is_final (trace (process ?W [''s3_path'' \<mapsto> ''not-a-valid-path''] ''/tmp/archive''))
              = [On_engine_failure (CCXMessagingError ''Archive pattern name incorrect'')]"
    using process_notifications
        [of ?W "[''s3_path'' \<mapsto> ''not-a-valid-path'']" "''/tmp/archive''" "''not-a-valid-path''"]
      n invalid_path_no_match
    by blast
  have c2: "\<exists>report. filter is_final (trace (process ?W [''s3_path'' \<mapsto> ?P] ''/tmp/archive''))
              = [On_engine_success report]"
    using process_notifications [of ?W "[''s3_path'' \<mapsto> ?P]" "''/tmp/archive''" ?P g] b g w
    by blast
  have c3: "filter is_final (trace (process ?F [''s3_path'' \<mapsto> ?P] ''/tmp/archive'')) = []"
    using process_notifications
        [of ?F "[''s3_path'' \<mapsto> ?P]" "''/tmp/archive''" ?P g "''connection refused''"] b g f
    by blast
  have c4: "filter is_final (trace (process ?W Map.empty ''/tmp/archive'')) = []"
    using process_notifications [of ?W Map.empty "''/tmp/archive''"]
    by simp
  from c2 obtain report where
    r: "filter is_final (trace (process ?W [''s3_path'' \<mapsto> ?P] ''/tmp/archive''))
          = [On_engine_success report]"
    by blast
  have c2a: "length (filter is_final (trace (process ?W [''s3_path'' \<mapsto> ?P] ''/tmp/archive''))) = 1"
    unfolding r by simp
  have "filter is_on_engine_failure (filter is_final (trace (process ?W [''s3_path'' \<mapsto> ?P] ''/tmp/archive''))) = []"
    unfolding r by simp
  then have c2b: "filter is_on_engine_failure (trace (process ?W [''s3_path'' \<mapsto> ?P] ''/tmp/archive'')) = []"
    by (simp add: is_final_def conj_commute cong: conj_cong)
  show ?thesis
    using c1 c2a c2b c3 c4 by (intro conjI)
qed

text \<open>
  Claim C5 as the spec states it fails: when the uploader raises, the trace of the call is
  \<open>pre_extract\<close> and the upload, with no \<open>on_engine_success\<close> and no
  \<open>on_engine_failure\<close>.
\<close>

theorem process_upload_raises_counterexample:
  "upload_file (S3UploadEngine None None default_archive_name_pattern (failing_uploader ''timeout''))
       ''/tmp/archive'' None ''ab/abcdefab-cdef-abcd-efab-cdefabcdefab/202401/01/120000.tar.gz''
     = Some ''timeout'' \<and>
   trace (process (S3UploadEngine None None default_archive_name_pattern (failing_uploader ''timeout''))
       [''s3_path'' \<mapsto> ''123/abcdefab-cdef-abcd-efab-cdefabcdefab/20240101120000-xyz123'',
        ''cluster_id'' \<mapsto> ''abcdefab-cdef-abcd-efab-cdefabcdefab'']
       ''/tmp/archive'')
     = [Pre_extract ''/tmp/archive'',
        Upload_file ''/tmp/archive'' None
          ''ab/abcdefab-cdef-abcd-efab-cdefabcdefab/202401/01/120000.tar.gz''] \<and>
   filter is_on_engine_success
     (trace (process (S3UploadEngine None None default_archive_name_pattern (failing_uploader ''timeout''))
       [''s3_path'' \<mapsto> ''123/abcdefab-cdef-abcd-efab-cdefabcdefab/20240101120000-xyz123'',
        ''cluster_id'' \<mapsto> ''abcdefab-cdef-abcd-efab-cdefabcdefab'']
       ''/tmp/archive'')) = [] \<and>
   filter is_on_engine_failure
     (trace (process (S3UploadEngine None None default_archive_name_pattern (failing_uploader ''timeout''))
       [''s3_path'' \<mapsto> ''123/abcdefab-cdef-abcd-efab-cdefabcdefab/20240101120000-xyz123'',
        ''cluster_id'' \<mapsto> ''abcdefab-cdef-abcd-efab-cdefabcdefab'']
       ''/tmp/archive'')) = []"
  by code_simp

subsection \<open>The characters of \<open>cluster_id\<close>\<close>

text \<open>
  Claim C6 at a path whose second segment is 36 commas. The character class of the pattern
  is written \<^verbatim>\<open>[0-9,a-z,-]\<close>; the commas, meant to separate the ranges, are members of
  the class, so the pattern matches and \<open>cluster_id\<close> is a string that is no token of
  digits, lowercase letters and hyphens.
\<close>

theorem archive_pattern_accepts_commas:
  "archive_groups ''1/,,,,,,,,,,,,,,,,,,,,,,,,,,,,,,,,,,,,/20240101120000-x''
     = Some [(''org_id'', ''1''), (''cluster_id'', '',,,,,,,,,,,,,,,,,,,,,,,,,,,,,,,,,,,,''),
           (''archive'', ''20240101120000-x''), (''timestamp'', ''20240101120000''),
           (''year'', ''2024''), (''month'', ''01''), (''day'', ''01''), (''time'', ''120000''),
           (''id'', ''x'')] \<and>
   length '',,,,,,,,,,,,,,,,,,,,,,,,,,,,,,,,,,,,'' = 36 \<and>
   \<not> list_all spec_cluster_id_char '',,,,,,,,,,,,,,,,,,,,,,,,,,,,,,,,,,,,''"
  by code_simp

text \<open>
  The class of the code is the spec's class and the comma; with that class, what a match
  gives for \<open>cluster_id\<close> has 36 characters of the class (\<open>archive_match_groups\<close>), and
  every such string is accepted.
\<close>

lemma cluster_id_char_iff: "cluster_id_char c \<longleftrightarrow> spec_cluster_id_char c \<or> c = CHR '',''"
  by (auto simp: cluster_id_char_def spec_cluster_id_char_def)

lemma not_digit_slash [simp]: "\<not> digit (CHR ''/'')" "digit (CHR ''1'')"
  by (simp_all add: digit_def in_range_def)

lemma archive_match_accepts:
  assumes "length c = 36" and "list_all cluster_id_char c"
  shows "\<exists>g. archive_match (''1/'' @ c @ ''/20240101120000-'') = Some g \<and> g ''cluster_id'' = Some c"
proof -
  have e: "exactly 36 cluster_id_char (c @ ''/20240101120000-'') = Some (c, ''/20240101120000-'')"
    using assms by (simp add: exactly_def)
  have y: "exactly 4 digit ''20240101120000-'' = Some (''2024'', ''0101120000-'')"
    by code_simp
  have m: "exactly 2 digit ''0101120000-'' = Some (''01'', ''01120000-'')"
    by code_simp
  have d: "exactly 2 digit ''01120000-'' = Some (''01'', ''120000-'')"
    by code_simp
  have t: "exactly 6 digit ''120000-'' = Some (''120000'', ''-'')"
    by code_simp
  show ?thesis
    by (simp add: archive_match_def archive_groups_def Let_def e y m d t)
qed

subsection \<open>Template resolution\<close>

lemma takeWhile_stop:
  "list_all P xs \<Longrightarrow> ys = [] \<or> \<not> P (hd ys) \<Longrightarrow> takeWhile P (xs @ ys) = xs"
  by (induction xs) (auto simp: takeWhile_eq_Nil_iff neq_Nil_conv)

lemma class_facts [simp]:
  "\<not> ident_start (CHR ''{'')" "\<not> ident_char (CHR ''}'')" "\<not> ident_char (CHR ''['')"
  "\<not> digit (CHR '':'')" "\<not> digit (CHR '']'')" "\<not> digit (CHR ''-'')"
  by (simp_all add: ident_start_def ident_char_def digit_def in_range_def)

lemma parse_ident_name:
  assumes "is_name name" and "rest = [] \<or> \<not> ident_char (hd rest)"
  shows "parse_ident (name @ rest) = Some name"
proof -
  from assms(1) obtain c cs where n: "name = c # cs" and c: "ident_start c" and cs: "list_all ident_char cs"
    by (cases name) (auto simp: is_name_def)
  show ?thesis
    using c by (simp add: n takeWhile_stop [OF cs assms(2)])
qed

lemma parse_placeholder_plain:
  assumes "is_name name" and "rest = [] \<or> \<not> ident_char (hd rest)"
  shows "parse_placeholder (name @ rest) = Some (name, length name)"
proof -
  from assms(1) obtain c cs where n: "name = c # cs" and c: "ident_start c"
    by (cases name) (auto simp: is_name_def)
  have "c \<noteq> CHR ''{''"
    using c by auto
  moreover have "parse_ident (c # cs @ rest) = Some name"
    using parse_ident_name [OF assms] by (simp add: n)
  ultimately show ?thesis
    by (simp add: n del: parse_ident.simps)
qed

lemma parse_placeholder_braced:
  assumes "is_name name"
  shows "parse_placeholder (CHR ''{'' # name @ CHR ''}'' # rest) = Some (name, length name + 2)"
proof -
  have "parse_ident (name @ CHR ''}'' # rest) = Some name"
    by (rule parse_ident_name [OF assms]) simp
  then show ?thesis
    by simp
qed

lemma parse_bound_text:
  assumes "is_bound_text a" and "\<not> digit c" and "c \<noteq> CHR ''-''"
  shows "parse_bound (a @ c # r) = (bound_value a, length a)"
proof (cases a)
  case Nil
  then show ?thesis
    using assms(2,3) by (simp add: parse_bound_def bound_value_def)
next
  case (Cons x xs)
  show ?thesis
  proof (cases "x = CHR ''-''")
    case True
    with assms(1) Cons have xs: "xs \<noteq> []" "list_all digit xs"
      by (auto simp: is_bound_text_def)
    have "takeWhile digit (xs @ c # r) = xs"
      by (rule takeWhile_stop [OF xs(2)]) (simp add: assms(2))
    then show ?thesis
      using xs(1) by (simp add: parse_bound_def bound_value_def Cons True)
  next
    case False
    with assms(1) Cons have d: "list_all digit (x # xs)"
      by (auto simp: is_bound_text_def)
    have "takeWhile digit ((x # xs) @ c # r) = x # xs"
      by (rule takeWhile_stop [OF d]) (simp add: assms(2))
    then show ?thesis
      using False by (simp add: parse_bound_def bound_value_def Cons Let_def)
  qed
qed

lemma parse_slice_text:
  assumes "is_bound_text a" and "is_bound_text b"
  shows "parse_slice (CHR ''['' # a @ CHR '':'' # b @ CHR '']'' # rest)
           = Some ((bound_value a, bound_value b), length a + length b + 3)"
proof -
  have 1: "parse_bound (a @ CHR '':'' # b @ CHR '']'' # rest) = (bound_value a, length a)"
    by (rule parse_bound_text [OF assms(1)]) simp_all
  have 2: "parse_bound (b @ CHR '']'' # rest) = (bound_value b, length b)"
    by (rule parse_bound_text [OF assms(2)]) simp_all
  show ?thesis
    by (simp add: parse_slice_def 1 2)
qed

lemma parse_slice_none:
  "rest = [] \<or> hd rest \<noteq> CHR ''['' \<Longrightarrow> parse_slice rest = None"
  by (cases rest) (auto simp: parse_slice_def)

lemma substitute_nil: "safe_substitute [] mapping = []"
  by (simp add: safe_substitute_def)

lemma substitute_literal:
  "c \<noteq> CHR ''$'' \<Longrightarrow> safe_substitute (c # rest) mapping = c # safe_substitute rest mapping"
  by (simp add: safe_substitute_def)

lemma substitute_plain:
  assumes "is_name name" and "rest = [] \<or> (\<not> ident_char (hd rest) \<and> hd rest \<noteq> CHR ''['')"
  shows "safe_substitute (CHR ''$'' # name @ rest) mapping =
           (case mapping name of None \<Rightarrow> CHR ''$'' # name | Some v \<Rightarrow> v) @
           safe_substitute rest mapping"
proof -
  have p: "parse_placeholder (name @ rest) = Some (name, length name)"
    using assms by (intro parse_placeholder_plain) auto
  have s: "parse_slice rest = None"
    using assms(2) by (intro parse_slice_none) auto
  have "placeholder_at (name @ rest) = Some (name, None, length name)"
    by (simp add: placeholder_at_def p s)
  then show ?thesis
    by (simp add: safe_substitute_def slice_value_def split: option.splits)
qed

lemma substitute_braced:
  assumes "is_name name" and "rest = [] \<or> hd rest \<noteq> CHR ''[''"
  shows "safe_substitute (''${'' @ name @ ''}'' @ rest) mapping =
           (case mapping name of None \<Rightarrow> ''${'' @ name @ ''}'' | Some v \<Rightarrow> v) @
           safe_substitute rest mapping"
proof -
  have p: "parse_placeholder (CHR ''{'' # name @ CHR ''}'' # rest) = Some (name, length name + 2)"
    by (rule parse_placeholder_braced [OF assms(1)])
  have s: "parse_slice rest = None"
    by (rule parse_slice_none [OF assms(2)])
  have "placeholder_at (CHR ''{'' # name @ CHR ''}'' # rest) = Some (name, None, length name + 2)"
    by (simp add: placeholder_at_def p s del: parse_placeholder.simps)
  then show ?thesis
    by (simp add: safe_substitute_def slice_value_def split: option.splits)
qed

lemma substitute_placeholder:
  assumes "placeholder_at (xs @ rest) = Some (name, sl, length xs)"
  shows "safe_substitute (CHR ''$'' # xs @ rest) mapping =
           (case mapping name of None \<Rightarrow> CHR ''$'' # xs | Some v \<Rightarrow> slice_value sl v) @
           safe_substitute rest mapping"
  using assms by (simp add: safe_substitute_def split: option.splits)

lemma substitute_plain_slice:
  assumes "is_name name" and "is_bound_text a" and "is_bound_text b"
  shows "safe_substitute (CHR ''$'' # name @ ''['' @ a @ '':'' @ b @ '']'' @ rest) mapping =
           (case mapping name of
              None \<Rightarrow> CHR ''$'' # name @ ''['' @ a @ '':'' @ b @ '']''
            | Some v \<Rightarrow> slice_value (Some (bound_value a, bound_value b)) v) @
           safe_substitute rest mapping"
proof -
  let ?tail = "CHR ''['' # a @ CHR '':'' # b @ CHR '']'' # rest"
  let ?xs = "name @ ''['' @ a @ '':'' @ b @ '']''"
  have p: "parse_placeholder (name @ ?tail) = Some (name, length name)"
    by (rule parse_placeholder_plain [OF assms(1)]) simp
  have s: "parse_slice ?tail = Some ((bound_value a, bound_value b), length a + length b + 3)"
    by (rule parse_slice_text [OF assms(2,3)])
  have "placeholder_at (name @ ?tail) =
          Some (name, Some (bound_value a, bound_value b), length name + (length a + length b + 3))"
    by (simp add: placeholder_at_def p s)
  moreover have "length name + (length a + length b + 3) = length ?xs"
    by simp
  moreover have "name @ ?tail = ?xs @ rest"
    by simp
  ultimately have "placeholder_at (?xs @ rest) =
          Some (name, Some (bound_value a, bound_value b), length ?xs)"
    by (simp only:)
  from substitute_placeholder [OF this] show ?thesis
    by (simp split: option.splits)
qed

lemma substitute_braced_slice:
  assumes "is_name name" and "is_bound_text a" and "is_bound_text b"
  shows "safe_substitute (''${'' @ name @ ''}'' @ ''['' @ a @ '':'' @ b @ '']'' @ rest) mapping =
           (case mapping name of
              None \<Rightarrow> ''${'' @ name @ ''}'' @ ''['' @ a @ '':'' @ b @ '']''
            | Some v \<Rightarrow> slice_value (Some (bound_value a, bound_value b)) v) @
           safe_substitute rest mapping"
proof -
  let ?tail = "CHR ''['' # a @ CHR '':'' # b @ CHR '']'' # rest"
  let ?xs = "''{'' @ name @ ''}'' @ ''['' @ a @ '':'' @ b @ '']''"
  have p: "parse_placeholder (CHR ''{'' # name @ CHR ''}'' # ?tail) = Some (name, length name + 2)"
    by (rule parse_placeholder_braced [OF assms(1)])
  have s: "parse_slice ?tail = Some ((bound_value a, bound_value b), length a + length b + 3)"
    by (rule parse_slice_text [OF assms(2,3)])
  have d: "drop (length name + 2) (CHR ''{'' # name @ CHR ''}'' # ?tail) = ?tail"
    by simp
  have "placeholder_at (CHR ''{'' # name @ CHR ''}'' # ?tail) =
          Some (name, Some (bound_value a, bound_value b), length name + 2 + (length a + length b + 3))"
    unfolding placeholder_at_def p option.case prod.case d s by (rule refl)
  moreover have "length name + 2 + (length a + length b + 3) = length ?xs"
    by simp
  moreover have "CHR ''{'' # name @ CHR ''}'' # ?tail = ?xs @ rest"
    by simp
  ultimately have "placeholder_at (?xs @ rest) =
          Some (name, Some (bound_value a, bound_value b), length ?xs)"
    by (simp only:)
  from substitute_placeholder [OF this] show ?thesis
    by (simp split: option.splits)
qed

lemma slice_value_offsets:
  "i \<le> j \<Longrightarrow> j \<le> length v \<Longrightarrow>
     slice_value (Some (Some (int i), Some (int j))) v = take (j - i) (drop i v)"
  by (simp add: slice_value_def slice_index_def)

lemma slice_value_omitted:
  "slice_value (Some (None, hi)) v = slice_value (Some (Some 0, hi)) v"
  "slice_value (Some (lo, None)) v = slice_value (Some (lo, Some (int (length v)))) v"
  by (simp_all add: slice_value_def slice_index_def)

lemma slice_value_negative:
  assumes "0 < k" and "k \<le> length v"
  shows "slice_value (Some (Some (- int k), hi)) v = slice_value (Some (Some (int (length v - k)), hi)) v"
    and "slice_value (Some (lo, Some (- int k))) v = slice_value (Some (lo, Some (int (length v - k)))) v"
proof -
  have "nat (int (length v) - int k) = length v - k"
    using assms by simp
  then show "slice_value (Some (Some (- int k), hi)) v = slice_value (Some (Some (int (length v - k)), hi)) v"
    and "slice_value (Some (lo, Some (- int k))) v = slice_value (Some (lo, Some (int (length v - k)))) v"
    using assms by (simp_all add: slice_value_def slice_index_def)
qed

lemma slicing_examples:
  "safe_substitute ''$x[:2]'' [''x'' \<mapsto> ''abcdef''] = ''ab''"
  "safe_substitute ''$x[2:]'' [''x'' \<mapsto> ''abcdef''] = ''cdef''"
  "safe_substitute ''${x}[-2:]'' [''x'' \<mapsto> ''abcdef''] = ''ef''"
  by code_simp+

lemma segments_text: "concat (map segment_text (segments template)) = template"
  by (induction template rule: segments.induct) (auto split: option.splits)

lemma convert_missing:
  "\<forall>n \<in> set (placeholder_names ss). mapping n = None \<Longrightarrow>
     map (convert mapping) ss = map segment_text ss"
  by (induction ss rule: placeholder_names.induct) auto

lemma substitute_missing:
  "\<forall>n \<in> set (placeholder_names (segments template)). mapping n = None \<Longrightarrow>
     safe_substitute template mapping = template"
  by (simp add: safe_substitute_def convert_missing segments_text)

lemma target_path_missing:
  "\<forall>n \<in> set (placeholder_names (segments (archive_name_template eng))). components n = None \<Longrightarrow>
     compute_target_path eng components =
       (case archives_path_prefix eng of
          None \<Rightarrow> archive_name_template eng
        | Some prefix \<Rightarrow>
            if prefix \<noteq> [] then prefix @ ''/'' @ archive_name_template eng
            else archive_name_template eng)"
  by (simp add: compute_target_path_def Let_def substitute_missing)

text \<open>
  Claim C7. \<open>safe_substitute\<close> is a total function of the template and the variable
  source: it gives a string for every input. A template none of whose names is found comes
  out unchanged, and so does the target path that \<open>compute_target_path\<close> makes of it.
  Piece by piece: a character other than the dollar sign is copied; a placeholder
  \<^verbatim>\<open>$name\<close> or \<^verbatim>\<open>${name}\<close>, with or without a slice \<^verbatim>\<open>[a:b]\<close> after it, stands as
  it is written when its name is not found and is replaced by the value, or the slice of
  the value, when the name is found. The slice of a value from offset \<open>i\<close> up to offset
  \<open>j\<close> is its characters at the offsets \<open>i\<close> to \<open>j - 1\<close>; an omitted first bound is
  0, an omitted second bound is the length of the value, and a negative bound counts from
  the end.
\<close>

theorem safe_substitute_placeholders:
  "((\<forall>n \<in> set (placeholder_names (segments template)). mapping n = None) \<longrightarrow>
      safe_substitute template mapping = template) \<and>
   ((\<forall>n \<in> set (placeholder_names (segments (archive_name_template eng))). mapping n = None) \<longrightarrow>
      compute_target_path eng mapping =
        (case archives_path_prefix eng of
           None \<Rightarrow> archive_name_template eng
         | Some prefix \<Rightarrow>
             if prefix \<noteq> [] then prefix @ ''/'' @ archive_name_template eng
             else archive_name_template eng)) \<and>
   safe_substitute [] mapping = [] \<and>
   (c \<noteq> CHR ''$'' \<longrightarrow> safe_substitute (c # rest) mapping = c # safe_substitute rest mapping) \<and>
   (is_name name \<and> (rest = [] \<or> (\<not> ident_char (hd rest) \<and> hd rest \<noteq> CHR ''['')) \<longrightarrow>
      safe_substitute (CHR ''$'' # name @ rest) mapping =
        (case mapping name of None \<Rightarrow> CHR ''$'' # name | Some v \<Rightarrow> v) @
        safe_substitute rest mapping) \<and>
   (is_name name \<and> (rest = [] \<or> hd rest \<noteq> CHR ''['') \<longrightarrow>
      safe_substitute (''${'' @ name @ ''}'' @ rest) mapping =
        (case mapping name of None \<Rightarrow> ''${'' @ name @ ''}'' | Some v \<Rightarrow> v) @
        safe_substitute rest mapping) \<and>
   (is_name name \<and> is_bound_text a \<and> is_bound_text b \<longrightarrow>
      safe_substitute (CHR ''$'' # name @ ''['' @ a @ '':'' @ b @ '']'' @ rest) mapping =
        (case mapping name of
           None \<Rightarrow> CHR ''$'' # name @ ''['' @ a @ '':'' @ b @ '']''
         | Some v \<Rightarrow> slice_value (Some (bound_value a, bound_value b)) v) @
        safe_substitute rest mapping) \<and>
   (is_name name \<and> is_bound_text a \<and> is_bound_text b \<longrightarrow>
      safe_substitute (''${'' @ name @ ''}'' @ ''['' @ a @ '':'' @ b @ '']'' @ rest) mapping =
        (case mapping name of
           None \<Rightarrow> ''${'' @ name @ ''}'' @ ''['' @ a @ '':'' @ b @ '']''
         | Some v \<Rightarrow> slice_value (Some (bound_value a, bound_value b)) v) @
        safe_substitute rest mapping) \<and>
   (i \<le> j \<and> j \<le> length v \<longrightarrow>
      slice_value (Some (Some (int i), Some (int j))) v = take (j - i) (drop i v)) \<and>
   slice_value (Some (None, hi)) v = slice_value (Some (Some 0, hi)) v \<and>
   slice_value (Some (lo, None)) v = slice_value (Some (lo, Some (int (length v)))) v \<and>
   (0 < k \<and> k \<le> length v \<longrightarrow>
      slice_value (Some (Some (- int k), hi)) v =
        slice_value (Some (Some (int (length v - k)), hi)) v \<and>
      slice_value (Some (lo, Some (- int k))) v =
        slice_value (Some (lo, Some (int (length v - k)))) v)"
proof (intro conjI impI)
  show "safe_substitute [] mapping = []"
    by (rule substitute_nil)
  show "slice_value (Some (None, hi)) v = slice_value (Some (Some 0, hi)) v"
    by (rule slice_value_omitted)
  show "slice_value (Some (lo, None)) v = slice_value (Some (lo, Some (int (length v)))) v"
    by (rule slice_value_omitted)
qed (simp_all add: substitute_missing target_path_missing substitute_literal substitute_plain
       substitute_braced substitute_plain_slice substitute_braced_slice slice_value_offsets
       slice_value_negative del: append.simps)

lemma witness_names:
  "is_name ''x''" "is_name ''year''" "is_name ''zone''"
  "is_bound_text []" "is_bound_text ''2''" "is_bound_text ''-2''"
  by code_simp+

lemma witness_values:
  "slice_value (Some (bound_value [], bound_value ''2'')) ''abcdef'' = ''ab''"
  "slice_value (Some (bound_value ''2'', bound_value [])) ''abcdef'' = ''cdef''"
  "slice_value (Some (bound_value ''-2'', bound_value [])) ''abcdef'' = ''ef''"
  by code_simp+

lemma unknown_segments:
  "segments ''$org/${zone}[1:]'' =
     [Placeholder ''$org'' ''org'' None, Literal (CHR ''/''),
      Placeholder ''${zone}[1:]'' ''zone'' (Some (Some 1, None))]"
  by code_simp

theorem safe_substitute_placeholders_witness:
  "is_name ''x'' \<and> is_bound_text [] \<and> is_bound_text ''2'' \<and> is_bound_text ''-2'' \<and>
   safe_substitute ''$x[:2]'' [''x'' \<mapsto> ''abcdef''] = ''ab'' \<and>
   safe_substitute ''$x[2:]'' [''x'' \<mapsto> ''abcdef''] = ''cdef'' \<and>
   safe_substitute ''${x}[-2:]'' [''x'' \<mapsto> ''abcdef''] = ''ef'' \<and>
   safe_substitute ''$zone[:2]'' [''x'' \<mapsto> ''abcdef''] = ''$zone[:2]'' \<and>
   safe_substitute ''$year.'' [''year'' \<mapsto> ''2024''] = ''2024.'' \<and>
   safe_substitute ''${year}'' [''year'' \<mapsto> ''2024''] = ''2024'' \<and>
   safe_substitute ''$zone'' [''year'' \<mapsto> ''2024''] = ''$zone'' \<and>
   placeholder_names (segments ''$org/${zone}[1:]'') = [''org'', ''zone''] \<and>
   safe_substitute ''$org/${zone}[1:]'' [''year'' \<mapsto> ''2024''] = ''$org/${zone}[1:]'' \<and>
   slice_value (Some (Some 1, Some 3)) ''abcdef'' = ''bc'' \<and>
   slice_value (Some (Some (- 2), None)) ''abcdef'' = slice_value (Some (Some 4, None)) ''abcdef''"
proof -
  let ?X = "[''x'' \<mapsto> ''abcdef'']"
  let ?Y = "[''year'' \<mapsto> ''2024'']"
  have w1: "safe_substitute ''$x[:2]'' ?X = ''ab''"
    using safe_substitute_placeholders
        [where name = "''x''" and a = "[]" and b = "''2''" and rest = "[]" and mapping = ?X]
      witness_names witness_values
    by simp
  have w2: "safe_substitute ''$x[2:]'' ?X = ''cdef''"
    using safe_substitute_placeholders
        [where name = "''x''" and a = "''2''" and b = "[]" and rest = "[]" and mapping = ?X]
      witness_names witness_values
    by simp
  have w3: "safe_substitute ''${x}[-2:]'' ?X = ''ef''"
    using safe_substitute_placeholders
        [where name = "''x''" and a = "''-2''" and b = "[]" and rest = "[]" and mapping = ?X]
      witness_names witness_values
    by simp
  have w4: "safe_substitute ''$zone[:2]'' ?X = ''$zone[:2]''"
    using safe_substitute_placeholders
        [where name = "''zone''" and a = "[]" and b = "''2''" and rest = "[]" and mapping = ?X]
      witness_names
    by simp
  have w5a: "safe_substitute ''.'' ?Y = ''.''"
    using safe_substitute_placeholders [where c = "CHR ''.''" and rest = "[]" and mapping = ?Y]
    by simp
  have w5: "safe_substitute ''$year.'' ?Y = ''2024.''"
    using safe_substitute_placeholders
        [where name = "''year''" and rest = "''.''" and mapping = ?Y]
      witness_names w5a
    by (simp add: ident_char_def ident_start_def in_range_def)
  have w6: "safe_substitute ''${year}'' ?Y = ''2024''"
    using safe_substitute_placeholders
        [where name = "''year''" and rest = "[]" and mapping = ?Y]
      witness_names
    by simp
  have w7: "safe_substitute ''$zone'' ?Y = ''$zone''"
    using safe_substitute_placeholders
        [where name = "''zone''" and rest = "[]" and mapping = ?Y]
      witness_names
    by simp
  have p: "placeholder_names (segments ''$org/${zone}[1:]'') = [''org'', ''zone'']"
    unfolding unknown_segments by simp
  have n: "\<forall>n \<in> set (placeholder_names (segments ''$org/${zone}[1:]'')). ?Y n = None"
    unfolding p by simp
  have w8: "safe_substitute ''$org/${zone}[1:]'' ?Y = ''$org/${zone}[1:]''"
    using safe_substitute_placeholders [where template = "''$org/${zone}[1:]''" and mapping = ?Y] n
    by blast
  have w9: "slice_value (Some (Some 1, Some 3)) ''abcdef'' = ''bc''"
    using safe_substitute_placeholders [where i = 1 and j = 3 and v = "''abcdef''"]
    by simp
  have w10: "slice_value (Some (Some (- 2), None)) ''abcdef''
               = slice_value (Some (Some 4, None)) ''abcdef''"
  proof -
    from safe_substitute_placeholders [where k = 2 and v = "''abcdef''" and hi = None]
    have "0 < (2::nat) \<and> 2 \<le> length ''abcdef'' \<longrightarrow>
            slice_value (Some (Some (- int 2), None)) ''abcdef''
              = slice_value (Some (Some (int (length ''abcdef'' - 2)), None)) ''abcdef''"
      by blast
    then show ?thesis
      by simp
  qed
  show ?thesis
    using witness_names w1 w2 w3 w4 w5 w6 w7 p w8 w9 w10 by (intro conjI)
qed

subsection \<open>An upload that raises\<close>

text \<open>
  Claim C8. When the call of the uploader raises, \<open>process\<close> ends with that same
  error; the trace holds exactly one call of the uploader (no retry), no
  \<open>on_engine_failure\<close> and no \<open>on_engine_success\<close>, and the broker is the one given.
\<close>

theorem process_upload_error:
  assumes "broker ''s3_path'' = Some s3_path" and "archive_match s3_path = Some groupdict"
    and "upload_file eng local_path (dest_bucket eng)
           (compute_target_path eng (components_of broker groupdict)) = Some msg"
  shows "result (process eng broker local_path) = Inl (UploadError msg) \<and>
         filter is_upload (trace (process eng broker local_path)) =
           [Upload_file local_path (dest_bucket eng)
              (compute_target_path eng (components_of broker groupdict))] \<and>
         filter is_on_engine_failure (trace (process eng broker local_path)) = [] \<and>
         filter is_on_engine_success (trace (process eng broker local_path)) = [] \<and>
         broker_after (process eng broker local_path) = broker"
  using assms by (simp add: process_def Let_def)

theorem process_upload_error_witness:
  "[''s3_path'' \<mapsto> ''123/abcdefab-cdef-abcd-efab-cdefabcdefab/20240101120000-xyz123'']
     ''s3_path'' = Some ''123/abcdefab-cdef-abcd-efab-cdefabcdefab/20240101120000-xyz123'' \<and>
   archive_match ''123/abcdefab-cdef-abcd-efab-cdefabcdefab/20240101120000-xyz123'' \<noteq> None \<and>
   result (process (S3UploadEngine (Some ''bucket'') None default_archive_name_pattern
                      (failing_uploader ''access denied''))
       [''s3_path'' \<mapsto> ''123/abcdefab-cdef-abcd-efab-cdefabcdefab/20240101120000-xyz123'']
       ''/tmp/archive'') = Inl (UploadError ''access denied'') \<and>
   filter is_on_engine_failure
     (trace (process (S3UploadEngine (Some ''bucket'') None default_archive_name_pattern
                      (failing_uploader ''access denied''))
       [''s3_path'' \<mapsto> ''123/abcdefab-cdef-abcd-efab-cdefabcdefab/20240101120000-xyz123'']
       ''/tmp/archive'')) = []"
proof -
  have h1: "[''s3_path'' \<mapsto> ''123/abcdefab-cdef-abcd-efab-cdefabcdefab/20240101120000-xyz123'']
     ''s3_path'' = Some ''123/abcdefab-cdef-abcd-efab-cdefabcdefab/20240101120000-xyz123''"
    by simp
  have h3: "upload_file (S3UploadEngine (Some ''bucket'') None default_archive_name_pattern
                      (failing_uploader ''access denied'')) l b t = Some ''access denied''" for l b t
    by (simp add: S3UploadEngine_def failing_uploader_def)
  show ?thesis
    using process_upload_error
        [of "[''s3_path'' \<mapsto> ''123/abcdefab-cdef-abcd-efab-cdefabcdefab/20240101120000-xyz123'']"
            "''123/abcdefab-cdef-abcd-efab-cdefabcdefab/20240101120000-xyz123''"
            "map_of [(''org_id'', ''123''), (''cluster_id'', ''abcdefab-cdef-abcd-efab-cdefabcdefab''),
           (''archive'', ''20240101120000-xyz123''), (''timestamp'', ''20240101120000''),
           (''year'', ''2024''), (''month'', ''01''), (''day'', ''01''), (''time'', ''120000''),
           (''id'', ''xyz123'')]"
            "S3UploadEngine (Some ''bucket'') None default_archive_name_pattern
               (failing_uploader ''access denied'')"
            "''/tmp/archive''" "''access denied''", OF h1 example_match h3]
      h1 example_match
    by simp
qed

subsection \<open>A broker without \<open>cluster_id\<close>\<close>

text \<open>
  Claim C10. When the broker has no key \<open>cluster_id\<close> and the match and the upload
  succeed, \<open>process\<close> ends with the lookup error of \<^verbatim>\<open>del broker["cluster_id"]\<close>,
  after the call of the uploader and after \<open>on_engine_success\<close>, which are the last two
  entries of the trace; the broker keeps all its keys.
\<close>

theorem process_missing_cluster_id:
  assumes "broker ''s3_path'' = Some s3_path" and "archive_match s3_path = Some groupdict"
    and "upload_file eng local_path (dest_bucket eng)
           (compute_target_path eng (components_of broker groupdict)) = None"
    and "broker ''cluster_id'' = None"
  shows "result (process eng broker local_path) = Inl (KeyError ''cluster_id'') \<and>
         trace (process eng broker local_path) =
           Pre_extract local_path # map Watch_broker (watchers eng) @
           [Upload_file local_path (dest_bucket eng)
              (compute_target_path eng (components_of broker groupdict)),
            On_engine_success
              (JObject [(''path'', JString (compute_target_path eng (components_of broker groupdict))),
                        (''original_path'', JString s3_path),
                        (''metadata'', create_metadata (components_of broker groupdict))])] \<and>
         broker_after (process eng broker local_path) = broker"
  using assms by (simp add: process_def Let_def del_item_def)

theorem process_missing_cluster_id_witness:
  "[''s3_path'' \<mapsto> ''123/abcdefab-cdef-abcd-efab-cdefabcdefab/20240101120000-xyz123'']
     ''cluster_id'' = None \<and>
   archive_match ''123/abcdefab-cdef-abcd-efab-cdefabcdefab/20240101120000-xyz123'' \<noteq> None \<and>
   result (process (S3UploadEngine None None default_archive_name_pattern working_uploader)
       [''s3_path'' \<mapsto> ''123/abcdefab-cdef-abcd-efab-cdefabcdefab/20240101120000-xyz123'']
       ''/tmp/archive'') = Inl (KeyError ''cluster_id'') \<and>
   broker_after (process (S3UploadEngine None None default_archive_name_pattern working_uploader)
       [''s3_path'' \<mapsto> ''123/abcdefab-cdef-abcd-efab-cdefabcdefab/20240101120000-xyz123'']
       ''/tmp/archive'') ''s3_path''
     = Some ''123/abcdefab-cdef-abcd-efab-cdefabcdefab/20240101120000-xyz123''"
proof -
  have h1: "[''s3_path'' \<mapsto> ''123/abcdefab-cdef-abcd-efab-cdefabcdefab/20240101120000-xyz123'']
     ''s3_path'' = Some ''123/abcdefab-cdef-abcd-efab-cdefabcdefab/20240101120000-xyz123''"
    by simp
  have h3: "upload_file (S3UploadEngine None None default_archive_name_pattern working_uploader)
              l b t = None" for l b t
    by (simp add: S3UploadEngine_def working_uploader_def)
  have h4: "[''s3_path'' \<mapsto> ''123/abcdefab-cdef-abcd-efab-cdefabcdefab/20240101120000-xyz123'']
     ''cluster_id'' = None"
    by simp
  show ?thesis
    using process_missing_cluster_id
        [of "[''s3_path'' \<mapsto> ''123/abcdefab-cdef-abcd-efab-cdefabcdefab/20240101120000-xyz123'']"
            "''123/abcdefab-cdef-abcd-efab-cdefabcdefab/20240101120000-xyz123''"
            "map_of [(''org_id'', ''123''), (''cluster_id'', ''abcdefab-cdef-abcd-efab-cdefabcdefab''),
           (''archive'', ''20240101120000-xyz123''), (''timestamp'', ''20240101120000''),
           (''year'', ''2024''), (''month'', ''01''), (''day'', ''01''), (''time'', ''120000''),
           (''id'', ''xyz123'')]"
            "S3UploadEngine None None default_archive_name_pattern working_uploader"
            "''/tmp/archive''", OF h1 example_match h3 h4]
      h1 h4 example_match
    by simp
qed

subsection \<open>The target path of the example\<close>

text \<open>
  Claim C2, as the code has it. The pattern wants a \<open>cluster_id\<close> of 36 characters, so
  the example is taken with the path
  \<^verbatim>\<open>123/abcdefab-cdef-abcd-efab-cdefabcdefab/20240101120000-xyz123\<close>. For a broker with
  that \<open>s3_path\<close>, with that cluster id under \<open>cluster_id\<close> and without the keys
  \<open>year\<close>, \<open>month\<close>, \<open>day\<close> and \<open>time\<close>, an engine with the default template and
  no prefix passes the target path
  \<^verbatim>\<open>ab/abcdefab-cdef-abcd-efab-cdefabcdefab/202401/01/120000.tar.gz\<close> to the uploader
  and, when the upload returns, returns the report with that path.
\<close>

theorem process_example_target_path:
  assumes "archive_name_template eng = default_archive_name_pattern"
    and "archives_path_prefix eng = None"
    and "broker ''s3_path'' = Some ''123/abcdefab-cdef-abcd-efab-cdefabcdefab/20240101120000-xyz123''"
    and "broker ''cluster_id'' = Some ''abcdefab-cdef-abcd-efab-cdefabcdefab''"
    and "broker ''year'' = None" and "broker ''month'' = None"
    and "broker ''day'' = None" and "broker ''time'' = None"
    and "upload_file eng local_path (dest_bucket eng)
           ''ab/abcdefab-cdef-abcd-efab-cdefabcdefab/202401/01/120000.tar.gz'' = None"
  shows "filter is_upload (trace (process eng broker local_path)) =
           [Upload_file local_path (dest_bucket eng)
              ''ab/abcdefab-cdef-abcd-efab-cdefabcdefab/202401/01/120000.tar.gz''] \<and>
         result (process eng broker local_path) =
           Inr (json_dumps
             (JObject [(''path'', JString ''ab/abcdefab-cdef-abcd-efab-cdefabcdefab/202401/01/120000.tar.gz''),
                       (''original_path'', JString ''123/abcdefab-cdef-abcd-efab-cdefabcdefab/20240101120000-xyz123''),
                       (''metadata'',
                        JObject [(''cluster_id'', JString ''abcdefab-cdef-abcd-efab-cdefabcdefab''),
                                 (''external_organization'',
                                  JString (case broker ''org_id'' of None \<Rightarrow> ''123'' | Some v \<Rightarrow> v))])]))"
proof -
  obtain g where g: "archive_match ''123/abcdefab-cdef-abcd-efab-cdefabcdefab/20240101120000-xyz123'' = Some g"
    and gv: "g ''org_id'' = Some ''123''" "g ''year'' = Some ''2024''" "g ''month'' = Some ''01''"
      "g ''day'' = Some ''01''" "g ''time'' = Some ''120000''"
    using example_match by simp
  have t: "compute_target_path eng (components_of broker g) =
             ''ab/abcdefab-cdef-abcd-efab-cdefabcdefab/202401/01/120000.tar.gz''"
    unfolding compute_target_path_def Let_def assms(1) assms(2)
    by (simp add: default_target_path components_of_def assms gv)
  have m: "create_metadata (components_of broker g) =
             JObject [(''cluster_id'', JString ''abcdefab-cdef-abcd-efab-cdefabcdefab''),
                      (''external_organization'',
                       JString (case broker ''org_id'' of None \<Rightarrow> ''123'' | Some v \<Rightarrow> v))]"
    by (simp add: create_metadata_def components_of_def json_of_get_def assms gv split: option.splits)
  show ?thesis
    by (simp add: process_def Let_def assms(3) g t m assms(9) del_item_def assms(4))
qed

theorem process_example_target_path_witness:
  "result (process (S3UploadEngine None None default_archive_name_pattern working_uploader)
       [''s3_path'' \<mapsto> ''123/abcdefab-cdef-abcd-efab-cdefabcdefab/20240101120000-xyz123'',
        ''cluster_id'' \<mapsto> ''abcdefab-cdef-abcd-efab-cdefabcdefab'']
       ''/tmp/archive'')
     = Inr (json_dumps
             (JObject [(''path'', JString ''ab/abcdefab-cdef-abcd-efab-cdefabcdefab/202401/01/120000.tar.gz''),
                       (''original_path'', JString ''123/abcdefab-cdef-abcd-efab-cdefabcdefab/20240101120000-xyz123''),
                       (''metadata'',
                        JObject [(''cluster_id'', JString ''abcdefab-cdef-abcd-efab-cdefabcdefab''),
                                 (''external_organization'', JString ''123'')])])) \<and>
   filter is_upload (trace (process (S3UploadEngine None None default_archive_name_pattern working_uploader)
       [''s3_path'' \<mapsto> ''123/abcdefab-cdef-abcd-efab-cdefabcdefab/20240101120000-xyz123'',
        ''cluster_id'' \<mapsto> ''abcdefab-cdef-abcd-efab-cdefabcdefab'']
       ''/tmp/archive''))
     = [Upload_file ''/tmp/archive'' None ''ab/abcdefab-cdef-abcd-efab-cdefabcdefab/202401/01/120000.tar.gz'']"
  using process_example_target_path
    [of "S3UploadEngine None None default_archive_name_pattern working_uploader"
        "[''s3_path'' \<mapsto> ''123/abcdefab-cdef-abcd-efab-cdefabcdefab/20240101120000-xyz123'',
          ''cluster_id'' \<mapsto> ''abcdefab-cdef-abcd-efab-cdefabcdefab'']"
        "''/tmp/archive''"]
  by (simp add: S3UploadEngine_def working_uploader_def)

text \<open>
  Claim C2 as the spec states it fails: the second segment of the path of the spec,
  \<^verbatim>\<open>abcdefabcd-efab-cdef-abcd-efabcdefabcd\<close>, has 38 characters, so the path does not
  match; \<open>process\<close> raises the pattern error and the uploader is never called.
\<close>

theorem process_spec_example_counterexample:
  "archive_match ''123/abcdefabcd-efab-cdef-abcd-efabcdefabcd/20240101120000-xyz123'' = None \<and>
   result (process (S3UploadEngine None None default_archive_name_pattern working_uploader)
       [''s3_path'' \<mapsto> ''123/abcdefabcd-efab-cdef-abcd-efabcdefabcd/20240101120000-xyz123'']
       ''/tmp/archive'')
     = Inl (CCXMessagingError ''Archive pattern name incorrect'') \<and>
   trace (process (S3UploadEngine None None default_archive_name_pattern working_uploader)
       [''s3_path'' \<mapsto> ''123/abcdefabcd-efab-cdef-abcd-efabcdefabcd/20240101120000-xyz123'']
       ''/tmp/archive'')
     = [Pre_extract ''/tmp/archive'',
        On_engine_failure (CCXMessagingError ''Archive pattern name incorrect'')]"
  by (simp add: process_def Let_def spec_path_no_match S3UploadEngine_def)

subsection \<open>The report\<close>

text \<open>
  Claim C9, as the code has it. When \<open>process\<close> returns, its result is the JSON text of
  a dictionary with the keys \<open>path\<close> (the target path), \<open>original_path\<close> (the
  \<open>s3_path\<close> of the broker) and \<open>metadata\<close>, a dictionary with the keys
  \<open>cluster_id\<close> and \<open>external_organization\<close>. Both are looked up in the layered
  source: \<open>cluster_id\<close> is the value of the broker, and \<open>external_organization\<close> is the
  \<open>org_id\<close> of the broker when it has one and the matched \<open>org_id\<close> otherwise.
\<close>

theorem process_report:
  assumes "broker ''s3_path'' = Some s3_path" and "archive_match s3_path = Some groupdict"
    and "result (process eng broker local_path) = Inr r"
  shows "\<exists>cluster org.
           broker ''cluster_id'' = Some cluster \<and>
           (case broker ''org_id'' of Some v \<Rightarrow> org = v | None \<Rightarrow> groupdict ''org_id'' = Some org) \<and>
           r = json_dumps
                 (JObject [(''path'', JString (compute_target_path eng (components_of broker groupdict))),
                           (''original_path'', JString s3_path),
                           (''metadata'', JObject [(''cluster_id'', JString cluster),
                                                   (''external_organization'', JString org)])])"
proof -
  obtain org where org: "groupdict ''org_id'' = Some org"
    using archive_match_groups [OF assms(2)] by blast
  from assms(3) obtain cluster where cluster: "broker ''cluster_id'' = Some cluster"
    by (auto simp: process_def Let_def del_item_def assms(1) assms(2) split: option.splits if_splits)
  show ?thesis
    using assms(3) org cluster
    by (auto simp: process_def Let_def del_item_def assms(1) assms(2) create_metadata_def
                   components_of_def json_of_get_def
             split: option.splits if_splits)
qed

theorem process_report_witness:
  "[''s3_path'' \<mapsto> ''123/abcdefab-cdef-abcd-efab-cdefabcdefab/20240101120000-xyz123'',
    ''cluster_id'' \<mapsto> ''abcdefab-cdef-abcd-efab-cdefabcdefab''] ''s3_path''
     = Some ''123/abcdefab-cdef-abcd-efab-cdefabcdefab/20240101120000-xyz123'' \<and>
   archive_match ''123/abcdefab-cdef-abcd-efab-cdefabcdefab/20240101120000-xyz123'' \<noteq> None \<and>
   (\<exists>r cluster org.
      result (process (S3UploadEngine None None default_archive_name_pattern working_uploader)
       [''s3_path'' \<mapsto> ''123/abcdefab-cdef-abcd-efab-cdefabcdefab/20240101120000-xyz123'',
        ''cluster_id'' \<mapsto> ''abcdefab-cdef-abcd-efab-cdefabcdefab'']
       ''/tmp/archive'') = Inr r \<and>
      [''s3_path'' \<mapsto> ''123/abcdefab-cdef-abcd-efab-cdefabcdefab/20240101120000-xyz123'',
       ''cluster_id'' \<mapsto> ''abcdefab-cdef-abcd-efab-cdefabcdefab''] ''cluster_id'' = Some cluster \<and>
      the (archive_match ''123/abcdefab-cdef-abcd-efab-cdefabcdefab/20240101120000-xyz123'') ''org_id''
        = Some org \<and>
      r = json_dumps
            (JObject [(''path'', JString
                        (compute_target_path
                           (S3UploadEngine None None default_archive_name_pattern working_uploader)
                           (components_of
                              [''s3_path'' \<mapsto> ''123/abcdefab-cdef-abcd-efab-cdefabcdefab/20240101120000-xyz123'',
                               ''cluster_id'' \<mapsto> ''abcdefab-cdef-abcd-efab-cdefabcdefab'']
                              (the (archive_match ''123/abcdefab-cdef-abcd-efab-cdefabcdefab/20240101120000-xyz123''))))),
                      (''original_path'', JString ''123/abcdefab-cdef-abcd-efab-cdefabcdefab/20240101120000-xyz123''),
                      (''metadata'', JObject [(''cluster_id'', JString cluster),
                                              (''external_organization'', JString org)])]))"
proof -
  let ?B = "[''s3_path'' \<mapsto> ''123/abcdefab-cdef-abcd-efab-cdefabcdefab/20240101120000-xyz123'',
             ''cluster_id'' \<mapsto> ''abcdefab-cdef-abcd-efab-cdefabcdefab'']"
  let ?P = "''123/abcdefab-cdef-abcd-efab-cdefabcdefab/20240101120000-xyz123''"
  have h1: "?B ''s3_path'' = Some ?P"
    by simp
  have h0: "?B ''org_id'' = None"
    by simp
  obtain g where g: "archive_match ?P = Some g"
    using example_match by simp
  from process_report [of ?B ?P g _ "''/tmp/archive''", OF h1 g example_run_plain]
  obtain cluster org where "?B ''cluster_id'' = Some cluster" "g ''org_id'' = Some org"
    "json_dumps
             (JObject [(''path'', JString ''ab/abcdefab-cdef-abcd-efab-cdefabcdefab/202401/01/120000.tar.gz''),
                       (''original_path'', JString ''123/abcdefab-cdef-abcd-efab-cdefabcdefab/20240101120000-xyz123''),
                       (''metadata'',
                        JObject [(''cluster_id'', JString ''abcdefab-cdef-abcd-efab-cdefabcdefab''),
                                 (''external_organization'', JString ''123'')])]) =
     json_dumps
            (JObject [(''path'', JString
                        (compute_target_path
                           (S3UploadEngine None None default_archive_name_pattern working_uploader)
                           (components_of ?B g))),
                      (''original_path'', JString ?P),
                      (''metadata'', JObject [(''cluster_id'', JString cluster),
                                              (''external_organization'', JString org)])])"
    unfolding h0 option.case by blast
  then show ?thesis
    using h1 g example_run_plain by (intro conjI exI[of _ cluster] exI[of _ org] exI) simp_all
qed

text \<open>
  Claim C9 as the spec states it fails: with a broker that holds \<open>org_id\<close>, the
  \<open>external_organization\<close> of the report is that value and not the matched \<open>org_id\<close>.
\<close>

theorem process_report_counterexample:
  "the (archive_match ''123/abcdefab-cdef-abcd-efab-cdefabcdefab/20240101120000-xyz123'') ''org_id''
     = Some ''123'' \<and>
   result (process (S3UploadEngine None None default_archive_name_pattern working_uploader)
       [''s3_path'' \<mapsto> ''123/abcdefab-cdef-abcd-efab-cdefabcdefab/20240101120000-xyz123'',
        ''cluster_id'' \<mapsto> ''abcdefab-cdef-abcd-efab-cdefabcdefab'', ''org_id'' \<mapsto> ''999'']
       ''/tmp/archive'')
     = Inr (json_dumps
             (JObject [(''path'', JString ''ab/abcdefab-cdef-abcd-efab-cdefabcdefab/202401/01/120000.tar.gz''),
                       (''original_path'', JString ''123/abcdefab-cdef-abcd-efab-cdefabcdefab/20240101120000-xyz123''),
                       (''metadata'',
                        JObject [(''cluster_id'', JString ''abcdefab-cdef-abcd-efab-cdefabcdefab''),
                                 (''external_organization'', JString ''999'')])]))"
  by code_simp

end
